theory Spec2Isabelle
  imports Complex_Main "HOL-Library.Char_ord" "HOL-Library.List_Lexorder"
    "HOL-Library.Product_Lexorder"
begin

section \<open>Strings\<close>

text \<open>
  Source strings are modelled as \<open>string\<close>, lists of 8-bit characters (the code units below
  256). \<open>toLowerCase\<close> maps \<open>A\<close>..\<open>Z\<close> (65..90) and the capitals U+00C0..U+00DE but the
  multiplication sign U+00D7 to the character 32 places later, and leaves the rest as it is.
\<close>

definition toLowerChar :: "char \<Rightarrow> char" where
  "toLowerChar c =
     (let n = (of_char c :: nat)
      in if (65 \<le> n \<and> n \<le> 90) \<or> (192 \<le> n \<and> n \<le> 222 \<and> n \<noteq> 215)
         then char_of (n + 32) else c)"

text \<open>
  The canonical form under which the \<open>i\<close> flag of a pattern compares characters: the upper
  case of \<open>a\<close>..\<open>z\<close> (97..122) and of the small letters U+00E0..U+00FE but the division sign
  U+00F7, 32 places earlier. The micro sign U+00B5 and U+00FF have their canonical form
  outside the 8-bit characters, where no other 8-bit character joins them, and the upper
  case of U+00DF is two characters, so that the character is canonical itself: these three
  stay as they are.
\<close>

definition toUpperChar :: "char \<Rightarrow> char" where
  "toUpperChar c =
     (let n = (of_char c :: nat)
      in if (97 \<le> n \<and> n \<le> 122) \<or> (224 \<le> n \<and> n \<le> 254 \<and> n \<noteq> 247)
         then char_of (n - 32) else c)"

definition toLowerCase :: "string \<Rightarrow> string" where
  "toLowerCase s = map toLowerChar s"

text \<open>\<open>s.startsWith(k)\<close> and \<open>s.includes(k)\<close>.\<close>

fun startsWith :: "string \<Rightarrow> string \<Rightarrow> bool" where
  "startsWith s [] = True"
| "startsWith [] (k # ks) = False"
| "startsWith (c # s) (k # ks) = (c = k \<and> startsWith s ks)"

fun includes_str :: "string \<Rightarrow> string \<Rightarrow> bool" where
  "includes_str [] k = (k = [])"
| "includes_str (c # s) k = (startsWith (c # s) k \<or> includes_str s k)"

text \<open>
  Comparison without regard to case, as the specification means it: two characters are the
  same when they are equal or one is a capital letter (\<open>A\<close>..\<open>Z\<close>, U+00C0..U+00DE but
  U+00D7) and the other its small form; a keyword occurs in a text when some stretch of the
  text, of the keyword's length, is the same as the keyword character by character.
\<close>

definition capital :: "char \<Rightarrow> bool" where
  "capital c = ((65 \<le> (of_char c :: nat) \<and> (of_char c :: nat) \<le> 90) \<or>
                (192 \<le> (of_char c :: nat) \<and> (of_char c :: nat) \<le> 222 \<and> (of_char c :: nat) \<noteq> 215))"

definition small_form_of :: "char \<Rightarrow> char \<Rightarrow> bool" where
  "small_form_of l u = (capital u \<and> (of_char l :: nat) = of_char u + 32)"

definition same_ignoring_case :: "char \<Rightarrow> char \<Rightarrow> bool" where
  "same_ignoring_case c d = (c = d \<or> small_form_of c d \<or> small_form_of d c)"


text \<open>
  \<open>s.trim()\<close> removes white space and line terminators at both ends: tab, line feed,
  vertical tab, form feed, carriage return, space and no-break space among 8-bit characters.
\<close>

definition isWhiteSpace :: "char \<Rightarrow> bool" where
  "isWhiteSpace c = ((of_char c :: nat) \<in> {9, 10, 11, 12, 13, 32, 160})"

definition trim :: "string \<Rightarrow> string" where
  "trim s = rev (dropWhile isWhiteSpace (rev (dropWhile isWhiteSpace s)))"

section \<open>Regular expressions built from the trigger keyword\<close>

text \<open>
  \<open>new RegExp(triggerKeyword, 'gi')\<close> reads the keyword as a pattern. The model covers the
  patterns made of ordinary characters, \<open>.\<close> and syntax characters escaped by a backslash,
  whose matching is defined below, and a
  class of patterns that the constructor rejects with a SyntaxError: those where a backslash
  ends the pattern, a character class is not closed, a parenthesis has no partner, or one
  of \<open>*\<close>, \<open>+\<close>, \<open>?\<close> has nothing before it to repeat (at the start of the pattern or of
  an alternative, or right after an opening parenthesis for \<open>*\<close> and \<open>+\<close>). For any other
  keyword \<open>new_RegExp\<close> is \<open>None\<close>: the pattern is outside the model.
\<close>

datatype error =
    SyntaxError
  | TypeError
  | NetworkFailure
  | HttpError string nat
  | JsonParseError
  | PostingFailure
  | StorageUnavailable
  | SettingsUnavailable

datatype atom = Lit char | AnyChar

definition syntaxCharacters :: "char list" where
  "syntaxCharacters = [CHR 0x5C, CHR ''^'', CHR ''$'', CHR ''.'', CHR ''*'', CHR ''+'', CHR ''?'',
     CHR ''('', CHR '')'', CHR ''['', CHR '']'', CHR ''{'', CHR ''}'', CHR ''|'']"

definition atom_of :: "char \<Rightarrow> atom" where
  "atom_of c = (if c = CHR ''.'' then AnyChar else Lit c)"

text \<open>
  The scan that finds the rejected patterns. It reads the pattern from the left, a backslash
  taking the next character with it, and keeps the number of open parentheses and where it
  stands: at the start of an alternative, right after an opening parenthesis, inside a
  character class (which ends at the first \<open>]\<close> not taken by a backslash), or elsewhere.
\<close>

datatype scan_state = AtStart | AfterOpen | Inside | InClass

fun syntax_error :: "scan_state \<Rightarrow> nat \<Rightarrow> string \<Rightarrow> bool" where
  "syntax_error st depth [] = (st = InClass \<or> 0 < depth)"
| "syntax_error st depth (c # cs) =
     (if st = InClass then
        (if c = CHR 0x5C then (case cs of [] \<Rightarrow> True | e # cs' \<Rightarrow> syntax_error InClass depth cs')
         else if c = CHR '']'' then syntax_error Inside depth cs
         else syntax_error InClass depth cs)
      else if c = CHR 0x5C then (case cs of [] \<Rightarrow> True | e # cs' \<Rightarrow> syntax_error Inside depth cs')
      else if c = CHR ''['' then syntax_error InClass depth cs
      else if c = CHR ''('' then syntax_error AfterOpen (Suc depth) cs
      else if c = CHR '')'' then (depth = 0 \<or> syntax_error Inside (depth - 1) cs)
      else if c = CHR ''|'' then syntax_error AtStart depth cs
      else if c = CHR ''*'' \<or> c = CHR ''+''
        then (st = AtStart \<or> st = AfterOpen \<or> syntax_error Inside depth cs)
      else if c = CHR ''?'' then (st = AtStart \<or> syntax_error Inside depth cs)
      else syntax_error Inside depth cs)"

text \<open>
  The patterns whose matching is modelled: an ordinary character stands for itself, \<open>.\<close> for
  any character, and a backslash before a syntax character makes that character stand for
  itself.
\<close>

fun parse_pattern :: "string \<Rightarrow> atom list option" where
  "parse_pattern [] = Some []"
| "parse_pattern (c # cs) =
     (if c = CHR 0x5C then
        (case cs of
           [] \<Rightarrow> None
         | e # cs' \<Rightarrow>
             if e \<in> set syntaxCharacters then map_option (Cons (Lit e)) (parse_pattern cs')
             else None)
      else if c = CHR ''.'' \<or> c \<notin> set syntaxCharacters
        then map_option (Cons (atom_of c)) (parse_pattern cs)
      else None)"


definition new_RegExp :: "string \<Rightarrow> (error + atom list) option" where
  "new_RegExp pat =
     (case parse_pattern pat of
        Some atoms \<Rightarrow> Some (Inr atoms)
      | None \<Rightarrow> if syntax_error AtStart 0 pat then Some (Inl SyntaxError) else None)"

text \<open>
  With the \<open>i\<close> flag two characters match when their canonical (upper case) forms agree;
  \<open>.\<close> matches any character but a line terminator.
\<close>

definition isLineTerminator :: "char \<Rightarrow> bool" where
  "isLineTerminator c = (c = CHR 0x0A \<or> c = CHR 0x0D)"

fun atom_matches :: "atom \<Rightarrow> char \<Rightarrow> bool" where
  "atom_matches (Lit k) c = (toUpperChar k = toUpperChar c)"
| "atom_matches AnyChar c = (\<not> isLineTerminator c)"

text \<open>Matching the pattern at the start of the text; the result is the text left after the match.\<close>

fun match_prefix :: "atom list \<Rightarrow> string \<Rightarrow> string option" where
  "match_prefix [] s = Some s"
| "match_prefix (a # as) [] = None"
| "match_prefix (a # as) (c # s) = (if atom_matches a c then match_prefix as s else None)"

lemma match_prefix_length:
  "match_prefix p s = Some r \<Longrightarrow> length s = length p + length r"
  by (induction p s rule: match_prefix.induct) (auto split: if_splits)

text \<open>
  \<open>text.replace(re, '')\<close> with the \<open>g\<close> flag: scan from the left, delete each match and go on
  after it. An empty match deletes nothing and the scan moves one character on.
\<close>

function replace_all :: "atom list \<Rightarrow> string \<Rightarrow> string" where
  "replace_all p [] = []"
| "replace_all p (c # s) =
     (case match_prefix p (c # s) of
        Some r \<Rightarrow> if p = [] then c # replace_all p s else replace_all p r
      | None \<Rightarrow> c # replace_all p s)"
  by pat_completeness auto
termination
proof (relation "measure (\<lambda>(p, s). length s)")
  show "wf (measure (\<lambda>(p, s). length s))" by simp
next
  fix p :: "atom list" and c s x2
  assume "match_prefix p (c # s) = Some x2" "p \<noteq> []"
  then show "((p, x2), p, c # s) \<in> measure (\<lambda>(p, s). length s)"
    using match_prefix_length [of p "c # s" x2] by (cases p) auto
qed auto

text \<open>
  The extraction as the specification words it: the text with every occurrence of the keyword,
  compared without regard to case, removed from left to right.
\<close>

function strip_keyword :: "string \<Rightarrow> string \<Rightarrow> string" where
  "strip_keyword kw [] = []"
| "strip_keyword kw (c # s) =
     (if kw \<noteq> [] \<and> list_all2 same_ignoring_case (take (length kw) (c # s)) kw
      then strip_keyword kw (drop (length kw) (c # s))
      else c # strip_keyword kw s)"
  by pat_completeness auto
termination
  by (relation "measure (\<lambda>(kw, s). length s)") (auto simp: neq_Nil_conv)

section \<open>Collaborators and their observable calls\<close>

text \<open>
  The body given to \<open>JSON.stringify\<close> for a provider request, as a JSON value.
\<close>

datatype json = JStr string | JNum rat | JArr "json list" | JObj "(string \<times> json) list"

text \<open>
  The provider's answer. \<open>fetch\<close> rejects (network failure) or resolves with a response;
  \<open>response.ok\<close> holds for a status from 200 to 299; \<open>response.json()\<close> rejects when the
  body is not JSON. The parsed data follows the interfaces \<open>OpenAIResponse\<close> and
  \<open>AnthropicResponse\<close>, every level being optional as the optional chaining of the source
  expects; \<open>choices = None\<close> (\<open>content_blocks = None\<close>) stands for data without that array,
  where reading index 0 raises a TypeError.
\<close>

datatype message = Message (content: "string option")
datatype choice = Choice (message: "message option")
datatype text_block = TextBlock (block_text: "string option")

record response_data =
  choices :: "choice list option"
  content_blocks :: "text_block list option"

datatype response_body = NotJson | Json response_data

record response =
  status :: nat
  body :: response_body

datatype fetch_outcome = Rejected | Resolved response

definition ok :: "response \<Rightarrow> bool" where
  "ok r = (200 \<le> status r \<and> status r \<le> 299)"

datatype effect =
    Call_generateAIResponse string
  | Call_fetch string "(string \<times> string) list" json
  | Call_submitComment string string
  | Call_hIncrBy string string int
  | Console_log string
  | Console_error string error

record user =
  user_id :: string
  username :: string

text \<open>
  The trigger context: the settings (\<open>None\<close> is an unset value), the agent's own account,
  and how the outside answers: the provider endpoint by URL, the posting of a comment by
  target and text, the counter store. \<open>settings_rejects\<close> tells, by the name of the setting,
  whether \<open>context.settings.get\<close> rejects when the AI service reads it. The reads that the
  triggers make themselves (of \<open>auto_reply_enabled\<close>, of \<open>trigger_keyword\<close>, of the current
  user) are taken as answered with the values of the context.
\<close>

record "context" =
  auto_reply_enabled :: "bool option"
  trigger_keyword :: "string option"
  ai_provider :: "string list option"
  openai_key :: "string option"
  anthropic_key :: "string option"
  currentUser :: "user option"
  fetch :: "string \<Rightarrow> fetch_outcome"
  submitComment_ok :: "string \<Rightarrow> string \<Rightarrow> bool"
  hIncrBy_ok :: bool
  settings_rejects :: "string \<Rightarrow> bool"

text \<open>
  The Redis data of the installation: hashes of integer fields (an absent field counts as 0)
  and sorted sets, each a list of (score, member) in rank order.
\<close>

record redis =
  hashes :: "string \<Rightarrow> string \<Rightarrow> int"
  zsets :: "string \<Rightarrow> (nat \<times> string) list"

record world =
  store :: redis
  trace :: "effect list"

definition emit :: "effect \<Rightarrow> world \<Rightarrow> world" where
  "emit e w = w\<lparr>trace := trace w @ [e]\<rparr>"

definition submitComment :: "context \<Rightarrow> string \<Rightarrow> string \<Rightarrow> world \<Rightarrow> (error + unit) \<times> world" where
  "submitComment ctx target txt w =
     (if submitComment_ok ctx target txt then Inr () else Inl PostingFailure,
      emit (Call_submitComment target txt) w)"

definition hIncrBy :: "context \<Rightarrow> string \<Rightarrow> string \<Rightarrow> int \<Rightarrow> world \<Rightarrow> (error + unit) \<times> world" where
  "hIncrBy ctx key field n w =
     (if hIncrBy_ok ctx
      then (Inr (),
            emit (Call_hIncrBy key field n)
              (w\<lparr>store := (store w)\<lparr>hashes := (hashes (store w))(key := (hashes (store w) key)(field := hashes (store w) key field + n))\<rparr>\<rparr>))
      else (Inl StorageUnavailable, emit (Call_hIncrBy key field n) w))"

section \<open>The AI service\<close>

definition SYSTEM_PROMPT :: string where
  "SYSTEM_PROMPT = ''You are a helpful Reddit assistant. Your responses should be:'' @ [CHR 0x0A] @
     ''- Concise and to the point (Reddit users prefer shorter responses)'' @ [CHR 0x0A] @
     ''- Friendly and conversational'' @ [CHR 0x0A] @
     ''- Accurate and factual'' @ [CHR 0x0A] @
     ''- Include markdown formatting where appropriate'' @ [CHR 0x0A] @
     ''- Respectful of Reddit culture and community guidelines'' @ [CHR 0x0A, CHR 0x0A] @
     ''If you don'' @ [CHR 0x27] @ ''t know something, say so. Don'' @ [CHR 0x27] @ ''t make things up.''"

definition apology :: string where
  "apology = ''I'' @ [CHR 0x27] @ ''m sorry, I encountered an error processing your request. Please try again later.''"

definition unable :: string where
  "unable = ''Unable to generate response.''"

definition openai_not_configured :: string where
  "openai_not_configured = ''OpenAI API key not configured. Please contact the subreddit moderators.''"

definition anthropic_not_configured :: string where
  "anthropic_not_configured = ''Anthropic API key not configured. Please contact the subreddit moderators.''"

definition openai_url :: string where
  "openai_url = ''https://api.openai.com/v1/chat/completions''"

definition anthropic_url :: string where
  "anthropic_url = ''https://api.anthropic.com/v1/messages''"

definition openai_request :: "string \<Rightarrow> json" where
  "openai_request question =
     JObj [(''model'', JStr ''gpt-4-turbo-preview''),
           (''messages'', JArr [JObj [(''role'', JStr ''system''), (''content'', JStr SYSTEM_PROMPT)],
                                JObj [(''role'', JStr ''user''), (''content'', JStr question)]]),
           (''max_tokens'', JNum 500),
           (''temperature'', JNum (7 / 10))]"

definition anthropic_request :: "string \<Rightarrow> json" where
  "anthropic_request question =
     JObj [(''model'', JStr ''claude-3-sonnet-20240229''),
           (''max_tokens'', JNum 500),
           (''system'', JStr SYSTEM_PROMPT),
           (''messages'', JArr [JObj [(''role'', JStr ''user''), (''content'', JStr question)]])]"

text \<open>\<open>data.choices[0]?.message?.content || "Unable to generate response."\<close>\<close>

definition openai_text :: "response_data \<Rightarrow> error + string" where
  "openai_text d =
     (case choices d of
        None \<Rightarrow> Inl TypeError
      | Some [] \<Rightarrow> Inr unable
      | Some (c # _) \<Rightarrow>
          (case message c of
             None \<Rightarrow> Inr unable
           | Some m \<Rightarrow>
               (case content m of
                  None \<Rightarrow> Inr unable
                | Some s \<Rightarrow> if s = [] then Inr unable else Inr s)))"

text \<open>\<open>data.content[0]?.text || "Unable to generate response."\<close>\<close>

definition anthropic_text :: "response_data \<Rightarrow> error + string" where
  "anthropic_text d =
     (case content_blocks d of
        None \<Rightarrow> Inl TypeError
      | Some [] \<Rightarrow> Inr unable
      | Some (b # _) \<Rightarrow>
          (case block_text b of
             None \<Rightarrow> Inr unable
           | Some s \<Rightarrow> if s = [] then Inr unable else Inr s))"

text \<open>A key is missing (\<open>!apiKey\<close>) when the setting is unset or the empty string.\<close>

definition missing :: "string option \<Rightarrow> bool" where
  "missing k = (case k of None \<Rightarrow> True | Some s \<Rightarrow> s = [])"

definition generateOpenAIResponse :: "context \<Rightarrow> string \<Rightarrow> world \<Rightarrow> (error + string) \<times> world" where
  "generateOpenAIResponse ctx question w =
     (if settings_rejects ctx ''openai_key'' then (Inl SettingsUnavailable, w)
      else if missing (openai_key ctx) then (Inr openai_not_configured, w)
      else
        let apiKey = the (openai_key ctx);
            w1 = emit (Call_fetch openai_url
                   [(''Authorization'', ''Bearer '' @ apiKey), (''Content-Type'', ''application/json'')]
                   (openai_request question)) w
        in case fetch ctx openai_url of
             Rejected \<Rightarrow> (Inl NetworkFailure, w1)
           | Resolved r \<Rightarrow>
               if \<not> ok r then (Inl (HttpError ''OpenAI API error: '' (status r)), w1)
               else (case body r of
                       NotJson \<Rightarrow> (Inl JsonParseError, w1)
                     | Json d \<Rightarrow> (openai_text d, w1)))"

definition generateAnthropicResponse :: "context \<Rightarrow> string \<Rightarrow> world \<Rightarrow> (error + string) \<times> world" where
  "generateAnthropicResponse ctx question w =
     (if settings_rejects ctx ''anthropic_key'' then (Inl SettingsUnavailable, w)
      else if missing (anthropic_key ctx) then (Inr anthropic_not_configured, w)
      else
        let apiKey = the (anthropic_key ctx);
            w1 = emit (Call_fetch anthropic_url
                   [(''x-api-key'', apiKey), (''anthropic-version'', ''2023-06-01''),
                    (''Content-Type'', ''application/json'')]
                   (anthropic_request question)) w
        in case fetch ctx anthropic_url of
             Rejected \<Rightarrow> (Inl NetworkFailure, w1)
           | Resolved r \<Rightarrow>
               if \<not> ok r then (Inl (HttpError ''Anthropic API error: '' (status r)), w1)
               else (case body r of
                       NotJson \<Rightarrow> (Inl JsonParseError, w1)
                     | Json d \<Rightarrow> (anthropic_text d, w1)))"

text \<open>
  \<open>provider[0] || 'openai'\<close>, with \<open>provider\<close> the setting or \<open>['openai']\<close> when unset.
\<close>

definition selectedProvider :: "context \<Rightarrow> string" where
  "selectedProvider ctx =
     (case ai_provider ctx of
        None \<Rightarrow> ''openai''
      | Some [] \<Rightarrow> ''openai''
      | Some (p # _) \<Rightarrow> if p = [] then ''openai'' else p)"

text \<open>
  The read of \<open>ai_provider\<close> comes before the \<open>try\<close>: when it rejects, the rejection is the
  result of the call. The provider call runs inside the \<open>try\<close>; the \<open>catch\<close> logs the
  provider and returns the apology.
\<close>

definition generateAIResponse :: "context \<Rightarrow> string \<Rightarrow> world \<Rightarrow> (error + string) \<times> world" where
  "generateAIResponse ctx question w =
     (let w0 = emit (Call_generateAIResponse question) w
      in if settings_rejects ctx ''ai_provider'' then (Inl SettingsUnavailable, w0)
         else
           let attempt = (if selectedProvider ctx = ''anthropic''
                          then generateAnthropicResponse ctx question w0
                          else generateOpenAIResponse ctx question w0)
           in case fst attempt of
                Inr s \<Rightarrow> (Inr s, snd attempt)
              | Inl e \<Rightarrow>
                  (Inr apology,
                   emit (Console_error (''AI generation error ('' @ selectedProvider ctx @ ''):'') e)
                     (snd attempt)))"









text \<open>Reading a field of a JSON object.\<close>

fun json_field :: "json \<Rightarrow> string \<Rightarrow> json option" where
  "json_field (JObj members) name = map_of members name"
| "json_field (JStr s) name = None"
| "json_field (JNum n) name = None"
| "json_field (JArr xs) name = None"

section \<open>The triggers\<close>

record post =
  post_id :: string
  authorId :: string
  title :: string
  selftext :: "string option"

record comment =
  comment_id :: string
  author :: string
  body :: string

text \<open>\<open>await context.settings.get('trigger_keyword') as string || '!ask'\<close>\<close>

definition triggerKeyword :: "context \<Rightarrow> string" where
  "triggerKeyword ctx =
     (case trigger_keyword ctx of None \<Rightarrow> ''!ask'' | Some k \<Rightarrow> if k = [] then ''!ask'' else k)"

text \<open>\<open>`${post.title} ${post.selftext || ''}`\<close>\<close>

definition postContent :: "post \<Rightarrow> string" where
  "postContent p = title p @ '' '' @ (case selftext p of None \<Rightarrow> [] | Some t \<Rightarrow> t)"

definition please_provide :: string where
  "please_provide = ''Please provide a question after the trigger keyword!''"

text \<open>
  The handlers return the world after the event, or \<open>None\<close> when the keyword is a pattern
  outside the model of \<open>new_RegExp\<close>. The whole body runs inside \<open>try\<close>; what is thrown is
  logged by the \<open>catch\<close> and nothing else happens.
\<close>

definition onPostSubmit :: "context \<Rightarrow> post option \<Rightarrow> world \<Rightarrow> world option" where
  "onPostSubmit ctx event_post w =
     (if auto_reply_enabled ctx \<noteq> Some True then Some w
      else case event_post of
        None \<Rightarrow> Some (emit (Console_log ''Post not found in event'') w)
      | Some p \<Rightarrow>
          if Some (authorId p) = map_option user_id (currentUser ctx) then Some w
          else if \<not> includes_str (toLowerCase (postContent p)) (toLowerCase (triggerKeyword ctx))
          then Some w
          else case new_RegExp (triggerKeyword ctx) of
            None \<Rightarrow> None
          | Some (Inl e) \<Rightarrow> Some (emit (Console_error ''Error in PostSubmit trigger:'' e) w)
          | Some (Inr re) \<Rightarrow>
              let question = trim (replace_all re (postContent p));
                  (aiResponse, w1) = generateAIResponse ctx question w
              in case aiResponse of
                   Inl e \<Rightarrow> Some (emit (Console_error ''Error in PostSubmit trigger:'' e) w1)
                 | Inr answer \<Rightarrow>
                     let (posted, w2) = submitComment ctx (post_id p) answer w1
                     in case posted of
                          Inl e \<Rightarrow> Some (emit (Console_error ''Error in PostSubmit trigger:'' e) w2)
                        | Inr _ \<Rightarrow>
                            let w3 = emit (Console_log (''Replied to post '' @ post_id p @ '' with AI response'')) w2;
                                (counted, w4) = hIncrBy ctx ''stats'' ''posts_processed'' 1 w3
                            in case counted of
                                 Inl e \<Rightarrow> Some (emit (Console_error ''Error in PostSubmit trigger:'' e) w4)
                               | Inr _ \<Rightarrow> Some w4)"

definition onCommentCreate :: "context \<Rightarrow> comment option \<Rightarrow> world \<Rightarrow> world option" where
  "onCommentCreate ctx event_comment w =
     (if auto_reply_enabled ctx \<noteq> Some True then Some w
      else case event_comment of
        None \<Rightarrow> Some (emit (Console_log ''Comment not found in event'') w)
      | Some c \<Rightarrow>
          if Some (author c) = map_option username (currentUser ctx) then Some w
          else if \<not> includes_str (toLowerCase (body c)) (toLowerCase (triggerKeyword ctx))
          then Some w
          else case new_RegExp (triggerKeyword ctx) of
            None \<Rightarrow> None
          | Some (Inl e) \<Rightarrow> Some (emit (Console_error ''Error in CommentCreate trigger:'' e) w)
          | Some (Inr re) \<Rightarrow>
              let question = trim (replace_all re (body c))
              in if question = [] then
                   (let (posted, w1) = submitComment ctx (comment_id c) please_provide w
                    in case posted of
                         Inl e \<Rightarrow> Some (emit (Console_error ''Error in CommentCreate trigger:'' e) w1)
                       | Inr _ \<Rightarrow> Some w1)
                 else
                   (let (aiResponse, w1) = generateAIResponse ctx question w
                    in case aiResponse of
                         Inl e \<Rightarrow> Some (emit (Console_error ''Error in CommentCreate trigger:'' e) w1)
                       | Inr answer \<Rightarrow>
                           let (posted, w2) = submitComment ctx (comment_id c) answer w1
                           in case posted of
                                Inl e \<Rightarrow> Some (emit (Console_error ''Error in CommentCreate trigger:'' e) w2)
                              | Inr _ \<Rightarrow>
                                  let w3 = emit (Console_log (''Replied to comment '' @ comment_id c @ '' with AI response'')) w2;
                                      (counted, w4) = hIncrBy ctx ''stats'' ''comments_processed'' 1 w3
                                  in case counted of
                                       Inl e \<Rightarrow> Some (emit (Console_error ''Error in CommentCreate trigger:'' e) w4)
                                     | Inr _ \<Rightarrow> Some w4))"

text \<open>The first four gates, as the handlers test them, for an event that carries its payload.\<close>

definition post_gates_pass :: "context \<Rightarrow> post \<Rightarrow> bool" where
  "post_gates_pass ctx p =
     (auto_reply_enabled ctx = Some True \<and>
      Some (authorId p) \<noteq> map_option user_id (currentUser ctx) \<and>
      includes_str (toLowerCase (postContent p)) (toLowerCase (triggerKeyword ctx)))"

definition comment_gates_pass :: "context \<Rightarrow> comment \<Rightarrow> bool" where
  "comment_gates_pass ctx c =
     (auto_reply_enabled ctx = Some True \<and>
      Some (author c) \<noteq> map_option username (currentUser ctx) \<and>
      includes_str (toLowerCase (body c)) (toLowerCase (triggerKeyword ctx)))"

text \<open>A keyword without any of the syntax characters of a pattern.\<close>

definition ordinary :: "string \<Rightarrow> bool" where
  "ordinary kw = list_all (\<lambda>d. d \<notin> set syntaxCharacters) kw"

text \<open>What a trace shows: calls of the generator and of the posting collaborator.\<close>

fun is_generate :: "effect \<Rightarrow> bool" where
  "is_generate (Call_generateAIResponse q) = True"
| "is_generate (Call_fetch u h b) = False"
| "is_generate (Call_submitComment t x) = False"
| "is_generate (Call_hIncrBy k f n) = False"
| "is_generate (Console_log m) = False"
| "is_generate (Console_error m e) = False"

fun is_submit :: "effect \<Rightarrow> bool" where
  "is_submit (Call_generateAIResponse q) = False"
| "is_submit (Call_fetch u h b) = False"
| "is_submit (Call_submitComment t x) = True"
| "is_submit (Call_hIncrBy k f n) = False"
| "is_submit (Console_log m) = False"
| "is_submit (Console_error m e) = False"


section \<open>Sample inputs\<close>

text \<open>A context, a world and events on which the statements below are run.\<close>

definition example_context :: "context" where
  "example_context =
     \<lparr>auto_reply_enabled = Some True, trigger_keyword = None, ai_provider = None,
      openai_key = Some ''sk-test'', anthropic_key = Some ''ak-test'',
      currentUser = Some \<lparr>user_id = ''t2_bot'', username = ''redditor-bot''\<rparr>,
      fetch = (\<lambda>url. Resolved \<lparr>status = 200,
                 body = Json \<lparr>choices = Some [Choice (Some (Message (Some ''Plants turn light into sugar.'')))],
                              content_blocks = Some [TextBlock (Some ''Plants turn light into sugar.'')]\<rparr>\<rparr>),
      submitComment_ok = (\<lambda>target txt. True), hIncrBy_ok = True,
      settings_rejects = (\<lambda>name. False)\<rparr>"

definition example_world :: world where
  "example_world = \<lparr>store = \<lparr>hashes = (\<lambda>key field. 0), zsets = (\<lambda>key. [])\<rparr>, trace = []\<rparr>"

definition example_comment :: comment where
  "example_comment = \<lparr>comment_id = ''t1_c1'', author = ''alice'', body = ''!ask what is photosynthesis''\<rparr>"

definition example_post :: post where
  "example_post = \<lparr>post_id = ''t3_p1'', authorId = ''t2_alice'', title = ''!ask'', selftext = None\<rparr>"






text \<open>The keyword \<open>..\<close>, and a comment whose body is a space and two dots.\<close>

definition dots_keyword_context :: "context" where
  "dots_keyword_context = example_context\<lparr>trigger_keyword := Some ''..''\<rparr>"

definition dots_comment :: comment where
  "dots_comment = example_comment\<lparr>body := '' ..''\<rparr>"

text \<open>The same keyword twice, with a space between.\<close>

definition dots_twice_comment :: comment where
  "dots_twice_comment = example_comment\<lparr>body := ''.. ..''\<rparr>"




section \<open>The conversation store\<close>




























text \<open>A sequence of appends, run one after the other, each with its reading of the clock.\<close>

record append_call =
  call_time :: nat
  call_user :: string
  call_question :: string
  call_answer :: string







text \<open>
  Appends for the conversation store: seven for one user and one for another under a clock
  that moves on between them, and six for one user under a clock that stands still.
\<close>

definition ask :: "nat \<Rightarrow> string \<Rightarrow> string \<Rightarrow> append_call" where
  "ask t u q = \<lparr>call_time = t, call_user = u, call_question = q, call_answer = ''ok''\<rparr>"



section \<open>Writing and reading the members of the store\<close>














lemma char_of_div_mod: "char_of (16 * ((of_char c :: nat) div 16) + of_char c mod 16) = c"
  by simp












































section \<open>Case folding and patterns made of ordinary characters\<close>


lemma of_char_toUpperChar:
  "of_char (toUpperChar c) =
     (if (97 \<le> (of_char c :: nat) \<and> (of_char c :: nat) \<le> 122) \<or>
         (224 \<le> (of_char c :: nat) \<and> (of_char c :: nat) \<le> 254 \<and> (of_char c :: nat) \<noteq> 247)
      then of_char c - 32 else (of_char c :: nat))"
  by (auto simp: toUpperChar_def Let_def)


lemma upper_fold_arith:
  fixes n m :: nat
  shows "((if (97 \<le> n \<and> n \<le> 122) \<or> (224 \<le> n \<and> n \<le> 254 \<and> n \<noteq> 247) then n - 32 else n) =
          (if (97 \<le> m \<and> m \<le> 122) \<or> (224 \<le> m \<and> m \<le> 254 \<and> m \<noteq> 247) then m - 32 else m))
     \<longleftrightarrow> (n = m \<or>
          (((65 \<le> m \<and> m \<le> 90) \<or> (192 \<le> m \<and> m \<le> 222 \<and> m \<noteq> 215)) \<and> n = m + 32) \<or>
          (((65 \<le> n \<and> n \<le> 90) \<or> (192 \<le> n \<and> n \<le> 222 \<and> n \<noteq> 215)) \<and> m = n + 32))"
  by (auto split: if_splits)

lemma same_ignoring_case_arith:
  "same_ignoring_case c d \<longleftrightarrow>
     ((of_char c :: nat) = of_char d \<or>
      (((65 \<le> (of_char d :: nat) \<and> (of_char d :: nat) \<le> 90) \<or>
        (192 \<le> (of_char d :: nat) \<and> (of_char d :: nat) \<le> 222 \<and> (of_char d :: nat) \<noteq> 215)) \<and>
       (of_char c :: nat) = of_char d + 32) \<or>
      (((65 \<le> (of_char c :: nat) \<and> (of_char c :: nat) \<le> 90) \<or>
        (192 \<le> (of_char c :: nat) \<and> (of_char c :: nat) \<le> 222 \<and> (of_char c :: nat) \<noteq> 215)) \<and>
       (of_char d :: nat) = of_char c + 32))"
  by (simp add: same_ignoring_case_def small_form_of_def capital_def)


lemma upper_eq_iff_same: "toUpperChar c = toUpperChar d \<longleftrightarrow> same_ignoring_case c d"
proof -
  have "toUpperChar c = toUpperChar d \<longleftrightarrow> (of_char (toUpperChar c) :: nat) = of_char (toUpperChar d)"
    by simp
  then show ?thesis
    unfolding of_char_toUpperChar same_ignoring_case_arith
    using upper_fold_arith [of "of_char c" "of_char d"] by blast
qed

lemma same_ignoring_case_sym: "same_ignoring_case c d \<longleftrightarrow> same_ignoring_case d c"
  by (auto simp: same_ignoring_case_def)


lemma ordinary_Cons: "ordinary (k # ks) \<longleftrightarrow> k \<notin> set syntaxCharacters \<and> ordinary ks"
  by (simp add: ordinary_def)

lemma atom_of_ordinary: "k \<notin> set syntaxCharacters \<Longrightarrow> atom_of k = Lit k"
  by (auto simp: atom_of_def syntaxCharacters_def)

lemma match_prefix_lits:
  "match_prefix (map Lit kw) s =
     (if list_all2 same_ignoring_case (take (length kw) s) kw then Some (drop (length kw) s) else None)"
proof (induction kw arbitrary: s)
  case Nil
  then show ?case by simp
next
  case (Cons k ks)
  show ?case
  proof (cases s)
    case Nil
    then show ?thesis by simp
  next
    case (Cons c s')
    then show ?thesis
      using Cons.IH [of s']
      by (simp add: upper_eq_iff_same same_ignoring_case_sym [of k c])
  qed
qed

lemma replace_all_lits: "replace_all (map Lit kw) s = strip_keyword kw s"
proof (induction kw s rule: strip_keyword.induct)
  case (1 kw)
  then show ?case by simp
next
  case (2 kw c s)
  show ?case
  proof (cases "kw \<noteq> [] \<and> list_all2 same_ignoring_case (take (length kw) (c # s)) kw")
    case True
    then show ?thesis
      using 2 match_prefix_lits [of kw "c # s"] by simp
  next
    case False
    then show ?thesis
      using 2 match_prefix_lits [of kw "c # s"] by (cases "kw = []") simp_all
  qed
qed

lemma atoms_of_ordinary: "ordinary kw \<Longrightarrow> map atom_of kw = map Lit kw"
  by (induction kw) (simp_all add: ordinary_Cons atom_of_ordinary)

lemma match_prefix_literal:
  "ordinary kw \<Longrightarrow>
     match_prefix (map atom_of kw) s =
       (if list_all2 same_ignoring_case (take (length kw) s) kw then Some (drop (length kw) s) else None)"
  by (simp only: atoms_of_ordinary match_prefix_lits)

lemma replace_all_literal:
  "ordinary kw \<Longrightarrow> replace_all (map atom_of kw) s = strip_keyword kw s"
  by (simp only: atoms_of_ordinary replace_all_lits)

lemma backslash_syntax: "CHR 0x5C \<in> set syntaxCharacters"
  by (simp add: syntaxCharacters_def)

lemma parse_pattern_ordinary: "ordinary kw \<Longrightarrow> parse_pattern kw = Some (map atom_of kw)"
proof (induction kw)
  case Nil
  then show ?case by simp
next
  case (Cons k ks)
  then have n: "k \<notin> set syntaxCharacters" and o: "ordinary ks" by (simp_all add: ordinary_Cons)
  from n have "k \<noteq> CHR 0x5C" using backslash_syntax by blast
  then show ?case using n Cons.IH [OF o] by simp
qed

lemma new_RegExp_ordinary: "ordinary kw \<Longrightarrow> new_RegExp kw = Some (Inr (map atom_of kw))"
  by (simp add: new_RegExp_def parse_pattern_ordinary)














section \<open>Properties of the trigger pipeline\<close>



text \<open>
  Claim C4. When the setting \<open>auto_reply_enabled\<close> is false (or unset), either handler
  returns at once for every event, whatever its text: the world is the one it started from,
  so its trace has no new call, neither of the generator nor of the posting collaborator.
\<close>

theorem feature_gate_stops_every_event:
  "auto_reply_enabled ctx \<noteq> Some True \<Longrightarrow>
     onPostSubmit ctx event_post w = Some w \<and> onCommentCreate ctx event_comment w = Some w"
  by (simp add: onPostSubmit_def onCommentCreate_def)

theorem feature_gate_stops_every_event_witness:
  "auto_reply_enabled (example_context\<lparr>auto_reply_enabled := Some False\<rparr>) \<noteq> Some True \<and>
   onPostSubmit (example_context\<lparr>auto_reply_enabled := Some False\<rparr>) (Some example_post) example_world
     = Some example_world \<and>
   onCommentCreate (example_context\<lparr>auto_reply_enabled := Some False\<rparr>) (Some example_comment) example_world
     = Some example_world"
  using feature_gate_stops_every_event
    [of "example_context\<lparr>auto_reply_enabled := Some False\<rparr>" "Some example_post" example_world
        "Some example_comment"]
  by simp

text \<open>
  Claim C7. An event written by the agent's own account (the post's \<open>authorId\<close> is the
  current user's id, the comment's \<open>author\<close> is the current user's name) stops the
  handler before the keyword is read: the world is unchanged, no generator call and no reply.
\<close>

theorem own_content_gets_no_reply:
  "currentUser ctx = Some me \<Longrightarrow>
     (authorId p = user_id me \<longrightarrow> onPostSubmit ctx (Some p) w = Some w) \<and>
     (author c = username me \<longrightarrow> onCommentCreate ctx (Some c) w = Some w)"
  by (simp add: onPostSubmit_def onCommentCreate_def)

theorem own_content_gets_no_reply_witness:
  "currentUser example_context = Some \<lparr>user_id = ''t2_bot'', username = ''redditor-bot''\<rparr> \<and>
   onPostSubmit example_context (Some (example_post\<lparr>authorId := ''t2_bot''\<rparr>)) example_world
     = Some example_world \<and>
   onCommentCreate example_context (Some (example_comment\<lparr>author := ''redditor-bot''\<rparr>)) example_world
     = Some example_world"
  using own_content_gets_no_reply
    [of example_context "\<lparr>user_id = ''t2_bot'', username = ''redditor-bot''\<rparr>"
        "example_post\<lparr>authorId := ''t2_bot''\<rparr>" example_world
        "example_comment\<lparr>author := ''redditor-bot''\<rparr>"]
  by (simp add: example_context_def)








section \<open>Properties of the AI service\<close>










text \<open>
  Claim C9. The request sent to OpenAI carries \<open>max_tokens\<close> 500 and \<open>temperature\<close> 0.7. The
  request sent to Anthropic carries \<open>max_tokens\<close> 500 and no \<open>temperature\<close> field at all: with
  the provider set to \<open>anthropic\<close> the one \<open>fetch\<close> call of a generation has that body.
\<close>

theorem anthropic_request_has_no_temperature:
  "json_field (openai_request question) ''max_tokens'' = Some (JNum 500) \<and>
   json_field (openai_request question) ''temperature'' = Some (JNum (7 / 10)) \<and>
   json_field (anthropic_request question) ''max_tokens'' = Some (JNum 500) \<and>
   json_field (anthropic_request question) ''temperature'' = None \<and>
   trace (snd (generateAIResponse (example_context\<lparr>ai_provider := Some [''anthropic'']\<rparr>)
                 question example_world)) =
     [Call_generateAIResponse question,
      Call_fetch anthropic_url
        [(''x-api-key'', ''ak-test''), (''anthropic-version'', ''2023-06-01''),
         (''Content-Type'', ''application/json'')]
        (anthropic_request question)]"
proof -
  have p: "selectedProvider (example_context\<lparr>ai_provider := Some [''anthropic'']\<rparr>) = ''anthropic''"
    by (simp add: selectedProvider_def)
  have "trace (snd (generateAIResponse (example_context\<lparr>ai_provider := Some [''anthropic'']\<rparr>)
                 question example_world)) =
     [Call_generateAIResponse question,
      Call_fetch anthropic_url
        [(''x-api-key'', ''ak-test''), (''anthropic-version'', ''2023-06-01''),
         (''Content-Type'', ''application/json'')]
        (anthropic_request question)]"
    unfolding generateAIResponse_def Let_def p
    by (simp add: generateAnthropicResponse_def Let_def missing_def
        example_context_def example_world_def emit_def ok_def anthropic_text_def)
  then show ?thesis
    by (simp add: openai_request_def anthropic_request_def)
qed

section \<open>What the handlers do once the gates are passed\<close>

lemma generateAIResponse_store: "store (snd (generateAIResponse ctx q w)) = store w"
  by (simp add: generateAIResponse_def generateOpenAIResponse_def generateAnthropicResponse_def
      Let_def emit_def split: sum.split fetch_outcome.split response_body.split)

lemma generateAIResponse_trace:
  "\<exists>rest. trace (snd (generateAIResponse ctx q w)) = trace w @ Call_generateAIResponse q # rest \<and>
     filter is_generate rest = [] \<and> filter is_submit rest = []"
  by (simp add: generateAIResponse_def generateOpenAIResponse_def generateAnthropicResponse_def
      Let_def emit_def split: sum.split fetch_outcome.split response_body.split)

lemma comment_success:
  assumes "comment_gates_pass ctx c"
    and "new_RegExp (triggerKeyword ctx) = Some (Inr re)"
    and "trim (replace_all re (body c)) \<noteq> []"
    and "generateAIResponse ctx (trim (replace_all re (body c))) w = (Inr answer, w1)"
    and "submitComment_ok ctx (comment_id c) answer"
    and "hIncrBy_ok ctx"
  shows "\<exists>w'. onCommentCreate ctx (Some c) w = Some w' \<and>
      trace w' = trace w1 @ [Call_submitComment (comment_id c) answer,
                            Console_log (''Replied to comment '' @ comment_id c @ '' with AI response''),
                            Call_hIncrBy ''stats'' ''comments_processed'' 1] \<and>
      hashes (store w') ''stats'' ''comments_processed'' = hashes (store w) ''stats'' ''comments_processed'' + 1 \<and>
      zsets (store w') = zsets (store w)"
proof -
  have "store w1 = store w"
    using generateAIResponse_store [of ctx "trim (replace_all re (body c))" w] assms(4) by simp
  with assms show ?thesis
    by (simp add: onCommentCreate_def comment_gates_pass_def Let_def submitComment_def hIncrBy_def emit_def)
qed

lemma post_success:
  assumes "post_gates_pass ctx p"
    and "new_RegExp (triggerKeyword ctx) = Some (Inr re)"
    and "generateAIResponse ctx (trim (replace_all re (postContent p))) w = (Inr answer, w1)"
    and "submitComment_ok ctx (post_id p) answer"
    and "hIncrBy_ok ctx"
  shows "\<exists>w'. onPostSubmit ctx (Some p) w = Some w' \<and>
      trace w' = trace w1 @ [Call_submitComment (post_id p) answer,
                            Console_log (''Replied to post '' @ post_id p @ '' with AI response''),
                            Call_hIncrBy ''stats'' ''posts_processed'' 1] \<and>
      hashes (store w') ''stats'' ''posts_processed'' = hashes (store w) ''stats'' ''posts_processed'' + 1 \<and>
      zsets (store w') = zsets (store w)"
proof -
  have "store w1 = store w"
    using generateAIResponse_store [of ctx "trim (replace_all re (postContent p))" w] assms(3) by simp
  with assms show ?thesis
    by (simp add: onPostSubmit_def post_gates_pass_def Let_def submitComment_def hIncrBy_def emit_def)
qed


lemma post_generates:
  assumes "post_gates_pass ctx p"
    and "new_RegExp (triggerKeyword ctx) = Some (Inr re)"
  shows "\<exists>w' rest. onPostSubmit ctx (Some p) w = Some w' \<and>
      trace w' = trace w @ Call_generateAIResponse (trim (replace_all re (postContent p))) # rest \<and>
      filter is_generate rest = []"
proof -
  obtain outcome w1 where g: "generateAIResponse ctx (trim (replace_all re (postContent p))) w = (outcome, w1)"
    by (cases "generateAIResponse ctx (trim (replace_all re (postContent p))) w") blast
  obtain rest where r: "trace w1 = trace w @ Call_generateAIResponse (trim (replace_all re (postContent p))) # rest"
    "filter is_generate rest = []"
    using generateAIResponse_trace [of ctx "trim (replace_all re (postContent p))" w] g by auto
  show ?thesis
    using assms g r
    by (cases outcome)
       (simp_all add: onPostSubmit_def post_gates_pass_def Let_def submitComment_def
          hIncrBy_def emit_def)
qed

lemma comment_empty_question:
  assumes "comment_gates_pass ctx c"
    and "new_RegExp (triggerKeyword ctx) = Some (Inr re)"
    and "trim (replace_all re (body c)) = []"
  shows "\<exists>w'. onCommentCreate ctx (Some c) w = Some w' \<and>
      filter is_submit (trace w') = filter is_submit (trace w) @ [Call_submitComment (comment_id c) please_provide] \<and>
      filter is_generate (trace w') = filter is_generate (trace w)"
  using assms
  by (simp add: onCommentCreate_def comment_gates_pass_def Let_def submitComment_def emit_def)

text \<open>The sample comment and post pass the gates.\<close>

lemma example_keyword: "triggerKeyword example_context = ''!ask''"
  by (simp add: triggerKeyword_def example_context_def)

lemma example_pattern: "new_RegExp ''!ask'' = Some (Inr (map atom_of ''!ask''))"
  by (rule new_RegExp_ordinary) (simp add: ordinary_def syntaxCharacters_def)

lemma example_question:
  "trim (replace_all (map atom_of ''!ask'') ''!ask what is photosynthesis'') = ''what is photosynthesis''"
  by code_simp

lemma example_post_question: "trim (replace_all (map atom_of ''!ask'') ''!ask '') = []"
  by code_simp

lemma example_comment_gates: "comment_gates_pass example_context example_comment"
proof -
  have "includes_str (toLowerCase ''!ask what is photosynthesis'') (toLowerCase ''!ask'')"
    by code_simp
  then show ?thesis
    by (simp add: comment_gates_pass_def example_keyword) (simp add: example_context_def example_comment_def)
qed

lemma example_post_gates: "post_gates_pass example_context example_post"
proof -
  have "includes_str (toLowerCase ''!ask '') (toLowerCase ''!ask'')"
    by code_simp
  then show ?thesis
    by (simp add: post_gates_pass_def example_keyword postContent_def)
       (simp add: example_context_def example_post_def)
qed

lemma example_generate:
  "generateAIResponse example_context q example_world =
     (Inr ''Plants turn light into sugar.'',
      example_world\<lparr>trace :=
        [Call_generateAIResponse q,
         Call_fetch openai_url
           [(''Authorization'', ''Bearer sk-test''), (''Content-Type'', ''application/json'')]
           (openai_request q)]\<rparr>)"
  by (simp add: generateAIResponse_def selectedProvider_def generateOpenAIResponse_def Let_def
      missing_def example_context_def example_world_def emit_def ok_def openai_text_def)

section \<open>Replies, counters and the extracted question\<close>

text \<open>
  Claim C1. A comment that passes the gates, whose question is not empty and whose reply is
  posted, with the counter store answering, adds 1 to \<open>comments_processed\<close> of the hash
  \<open>stats\<close>; a post adds 1 to \<open>posts_processed\<close>. The sorted sets (the conversation
  histories) are the same after the event as before: no entry is appended for the author.
\<close>

theorem reply_counted_history_untouched:
  "(comment_gates_pass ctx c \<and> new_RegExp (triggerKeyword ctx) = Some (Inr re) \<and>
    trim (replace_all re (body c)) \<noteq> [] \<and>
    generateAIResponse ctx (trim (replace_all re (body c))) w = (Inr answer, w1) \<and>
    submitComment_ok ctx (comment_id c) answer \<and> hIncrBy_ok ctx \<longrightarrow>
      (\<exists>w'. onCommentCreate ctx (Some c) w = Some w' \<and>
         hashes (store w') ''stats'' ''comments_processed''
           = hashes (store w) ''stats'' ''comments_processed'' + 1 \<and>
         zsets (store w') = zsets (store w))) \<and>
   (post_gates_pass ctx p \<and> new_RegExp (triggerKeyword ctx) = Some (Inr re) \<and>
    generateAIResponse ctx (trim (replace_all re (postContent p))) w = (Inr answer', w1') \<and>
    submitComment_ok ctx (post_id p) answer' \<and> hIncrBy_ok ctx \<longrightarrow>
      (\<exists>w'. onPostSubmit ctx (Some p) w = Some w' \<and>
         hashes (store w') ''stats'' ''posts_processed''
           = hashes (store w) ''stats'' ''posts_processed'' + 1 \<and>
         zsets (store w') = zsets (store w)))"
proof (intro conjI impI)
  assume a: "comment_gates_pass ctx c \<and> new_RegExp (triggerKeyword ctx) = Some (Inr re) \<and>
    trim (replace_all re (body c)) \<noteq> [] \<and>
    generateAIResponse ctx (trim (replace_all re (body c))) w = (Inr answer, w1) \<and>
    submitComment_ok ctx (comment_id c) answer \<and> hIncrBy_ok ctx"
  then show "\<exists>w'. onCommentCreate ctx (Some c) w = Some w' \<and>
         hashes (store w') ''stats'' ''comments_processed''
           = hashes (store w) ''stats'' ''comments_processed'' + 1 \<and>
         zsets (store w') = zsets (store w)"
    using comment_success [of ctx c re w answer w1] by blast
next
  assume a: "post_gates_pass ctx p \<and> new_RegExp (triggerKeyword ctx) = Some (Inr re) \<and>
    generateAIResponse ctx (trim (replace_all re (postContent p))) w = (Inr answer', w1') \<and>
    submitComment_ok ctx (post_id p) answer' \<and> hIncrBy_ok ctx"
  then show "\<exists>w'. onPostSubmit ctx (Some p) w = Some w' \<and>
         hashes (store w') ''stats'' ''posts_processed''
           = hashes (store w) ''stats'' ''posts_processed'' + 1 \<and>
         zsets (store w') = zsets (store w)"
    using post_success [of ctx p re w answer' w1'] by blast
qed

theorem reply_counted_history_untouched_witness:
  "comment_gates_pass example_context example_comment \<and>
   trim (replace_all (map atom_of ''!ask'') (body example_comment)) = ''what is photosynthesis'' \<and>
   (\<exists>w'. onCommentCreate example_context (Some example_comment) example_world = Some w' \<and>
      hashes (store w') ''stats'' ''comments_processed'' = 1 \<and>
      zsets (store w') ''conversation:alice'' = []) \<and>
   post_gates_pass example_context example_post \<and>
   (\<exists>w'. onPostSubmit example_context (Some example_post) example_world = Some w' \<and>
      hashes (store w') ''stats'' ''posts_processed'' = 1 \<and>
      zsets (store w') ''conversation:t2_alice'' = [])"
proof -
  have q: "trim (replace_all (map atom_of ''!ask'') (body example_comment)) = ''what is photosynthesis''"
    using example_question by (simp add: example_comment_def)
  have pq: "trim (replace_all (map atom_of ''!ask'') (postContent example_post)) = []"
    using example_post_question by (simp add: example_post_def postContent_def)
  have ok: "submitComment_ok example_context t x" "hIncrBy_ok example_context" for t x
    by (simp_all add: example_context_def)
  have w0: "hashes (store example_world) k f = 0" "zsets (store example_world) = (\<lambda>k. [])" for k f
    by (simp_all add: example_world_def)
  show ?thesis
    using reply_counted_history_untouched
      [of example_context example_comment "map atom_of ''!ask''" example_world
          "''Plants turn light into sugar.''"
          "example_world\<lparr>trace :=
             [Call_generateAIResponse ''what is photosynthesis'',
              Call_fetch openai_url
                [(''Authorization'', ''Bearer sk-test''), (''Content-Type'', ''application/json'')]
                (openai_request ''what is photosynthesis'')]\<rparr>"
          example_post
          "''Plants turn light into sugar.''"
          "example_world\<lparr>trace :=
             [Call_generateAIResponse [],
              Call_fetch openai_url
                [(''Authorization'', ''Bearer sk-test''), (''Content-Type'', ''application/json'')]
                (openai_request [])]\<rparr>"]
      example_comment_gates example_post_gates example_pattern example_keyword q pq ok w0
      example_generate [of "''what is photosynthesis''"] example_generate [of "[]"]
    by auto
qed

text \<open>
  What holds of the empty question. A comment that passes the first four gates and whose
  question, as the pattern extracts it, is empty gets one reply, the fixed text, and the
  generator is not called; for a keyword of ordinary characters that question is the body
  with every occurrence of the keyword, compared without regard to case, removed and
  trimmed. A post in the same situation has no special case: the generator is called with
  the empty question.
\<close>

lemma empty_question_comment_prompt_post_generates:
  "(comment_gates_pass ctx c \<and> new_RegExp (triggerKeyword ctx) = Some (Inr re) \<and>
    trim (replace_all re (body c)) = [] \<longrightarrow>
      (\<exists>w'. onCommentCreate ctx (Some c) w = Some w' \<and>
         filter is_submit (trace w') =
           filter is_submit (trace w) @ [Call_submitComment (comment_id c) please_provide] \<and>
         filter is_generate (trace w') = filter is_generate (trace w))) \<and>
   (comment_gates_pass ctx c \<and> ordinary (triggerKeyword ctx) \<and>
    trim (strip_keyword (triggerKeyword ctx) (body c)) = [] \<longrightarrow>
      (\<exists>w'. onCommentCreate ctx (Some c) w = Some w' \<and>
         filter is_submit (trace w') =
           filter is_submit (trace w) @ [Call_submitComment (comment_id c) please_provide] \<and>
         filter is_generate (trace w') = filter is_generate (trace w))) \<and>
   (post_gates_pass ctx p \<and> new_RegExp (triggerKeyword ctx) = Some (Inr re') \<and>
    trim (replace_all re' (postContent p)) = [] \<longrightarrow>
      (\<exists>w' rest. onPostSubmit ctx (Some p) w = Some w' \<and>
         trace w' = trace w @ Call_generateAIResponse [] # rest \<and>
         filter is_generate rest = []))"
proof (intro conjI impI)
  assume "comment_gates_pass ctx c \<and> new_RegExp (triggerKeyword ctx) = Some (Inr re) \<and>
    trim (replace_all re (body c)) = []"
  then show "\<exists>w'. onCommentCreate ctx (Some c) w = Some w' \<and>
         filter is_submit (trace w') =
           filter is_submit (trace w) @ [Call_submitComment (comment_id c) please_provide] \<and>
         filter is_generate (trace w') = filter is_generate (trace w)"
    using comment_empty_question [of ctx c re w] by blast
next
  assume a: "comment_gates_pass ctx c \<and> ordinary (triggerKeyword ctx) \<and>
    trim (strip_keyword (triggerKeyword ctx) (body c)) = []"
  then have "new_RegExp (triggerKeyword ctx) = Some (Inr (map atom_of (triggerKeyword ctx)))"
    and "trim (replace_all (map atom_of (triggerKeyword ctx)) (body c)) = []"
    by (simp_all add: new_RegExp_ordinary replace_all_literal)
  with a show "\<exists>w'. onCommentCreate ctx (Some c) w = Some w' \<and>
         filter is_submit (trace w') =
           filter is_submit (trace w) @ [Call_submitComment (comment_id c) please_provide] \<and>
         filter is_generate (trace w') = filter is_generate (trace w)"
    using comment_empty_question [of ctx c "map atom_of (triggerKeyword ctx)" w] by blast
next
  assume a: "post_gates_pass ctx p \<and> new_RegExp (triggerKeyword ctx) = Some (Inr re') \<and>
    trim (replace_all re' (postContent p)) = []"
  then show "\<exists>w' rest. onPostSubmit ctx (Some p) w = Some w' \<and>
         trace w' = trace w @ Call_generateAIResponse [] # rest \<and>
         filter is_generate rest = []"
    using post_generates [of ctx p re' w] by auto
qed

text \<open>A comment under the keyword \<open>..\<close> whose extracted question is one dot.\<close>

lemma dots_keyword_run:
  assumes b: "body c = txt" and i: "includes_str (toLowerCase txt) (toLowerCase ''..'')"
    and a: "author c = ''alice''" and q: "trim (replace_all [AnyChar, AnyChar] txt) = ''.''"
  shows "comment_gates_pass dots_keyword_context c"
    and "map_option trace (onCommentCreate dots_keyword_context (Some c) example_world) =
     Some [Call_generateAIResponse ''.'',
           Call_fetch openai_url
             [(''Authorization'', ''Bearer sk-test''), (''Content-Type'', ''application/json'')]
             (openai_request ''.''),
           Call_submitComment (comment_id c) ''Plants turn light into sugar.'',
           Console_log (''Replied to comment '' @ comment_id c @ '' with AI response''),
           Call_hIncrBy ''stats'' ''comments_processed'' 1]"
proof -
  have k: "triggerKeyword dots_keyword_context = ''..''"
    by (simp add: triggerKeyword_def dots_keyword_context_def)
  show g: "comment_gates_pass dots_keyword_context c"
    unfolding comment_gates_pass_def k b a using i
    by (simp add: dots_keyword_context_def example_context_def)
  have n: "new_RegExp ''..'' = Some (Inr [AnyChar, AnyChar])"
    by (simp add: new_RegExp_def atom_of_def syntaxCharacters_def)
  have q': "trim (replace_all [AnyChar, AnyChar] (body c)) = ''.''"
    using q by (simp only: b)
  have r: "generateAIResponse dots_keyword_context ''.'' example_world =
     (Inr ''Plants turn light into sugar.'',
      example_world\<lparr>trace :=
        [Call_generateAIResponse ''.'',
         Call_fetch openai_url
           [(''Authorization'', ''Bearer sk-test''), (''Content-Type'', ''application/json'')]
           (openai_request ''.'')]\<rparr>)"
    by (simp add: generateAIResponse_def selectedProvider_def generateOpenAIResponse_def Let_def
        missing_def dots_keyword_context_def example_context_def example_world_def emit_def ok_def
        openai_text_def)
  have ok: "submitComment_ok dots_keyword_context t x" "hIncrBy_ok dots_keyword_context" for t x
    by (simp_all add: dots_keyword_context_def example_context_def)
  obtain w' where "onCommentCreate dots_keyword_context (Some c) example_world = Some w'"
    and "trace w' = trace (example_world\<lparr>trace :=
      [Call_generateAIResponse ''.'',
       Call_fetch openai_url
         [(''Authorization'', ''Bearer sk-test''), (''Content-Type'', ''application/json'')]
         (openai_request ''.'')]\<rparr>) @
      [Call_submitComment (comment_id c) ''Plants turn light into sugar.'',
       Console_log (''Replied to comment '' @ comment_id c @ '' with AI response''),
       Call_hIncrBy ''stats'' ''comments_processed'' 1]"
    using comment_success [of dots_keyword_context c "[AnyChar, AnyChar]" example_world
        "''Plants turn light into sugar.''", OF g]
      n r ok unfolding k q' by blast
  then show "map_option trace (onCommentCreate dots_keyword_context (Some c) example_world) =
     Some [Call_generateAIResponse ''.'',
           Call_fetch openai_url
             [(''Authorization'', ''Bearer sk-test''), (''Content-Type'', ''application/json'')]
             (openai_request ''.''),
           Call_submitComment (comment_id c) ''Plants turn light into sugar.'',
           Console_log (''Replied to comment '' @ comment_id c @ '' with AI response''),
           Call_hIncrBy ''stats'' ''comments_processed'' 1]"
    by simp
qed

text \<open>
  Claim C5. With the keyword \<open>..\<close> and a comment of body \<open>.. ..\<close> (the keyword twice, a
  space between) by another user, the first four gates pass, and removing every occurrence
  of the keyword from the body leaves a space, trimmed to the empty question: the claim has
  the fixed reply posted and no generator call. The handler builds the pattern \<open>..\<close>,
  which matches the first two dots and then the space with the third dot; the question it
  extracts is \<open>.\<close>, the generator is called with it and the reply posted is the generated
  answer. The same happens for the body \<open> ..\<close> (a space and two dots). The post of title
  \<open>!ask\<close> under the keyword \<open>!ask\<close> has the empty question, and the generator is called
  with it.
\<close>

theorem keyword_of_dots_empty_question_is_generated:
  "triggerKeyword dots_keyword_context = ''..'' \<and>
   body dots_twice_comment = ''.. ..'' \<and>
   comment_gates_pass dots_keyword_context dots_twice_comment \<and>
   trim (strip_keyword ''..'' ''.. ..'') = [] \<and>
   map_option trace (onCommentCreate dots_keyword_context (Some dots_twice_comment) example_world) =
     Some [Call_generateAIResponse ''.'',
           Call_fetch openai_url
             [(''Authorization'', ''Bearer sk-test''), (''Content-Type'', ''application/json'')]
             (openai_request ''.''),
           Call_submitComment ''t1_c1'' ''Plants turn light into sugar.'',
           Console_log ''Replied to comment t1_c1 with AI response'',
           Call_hIncrBy ''stats'' ''comments_processed'' 1] \<and>
   body dots_comment = '' ..'' \<and>
   comment_gates_pass dots_keyword_context dots_comment \<and>
   trim (strip_keyword ''..'' '' ..'') = [] \<and>
   map_option trace (onCommentCreate dots_keyword_context (Some dots_comment) example_world) =
     Some [Call_generateAIResponse ''.'',
           Call_fetch openai_url
             [(''Authorization'', ''Bearer sk-test''), (''Content-Type'', ''application/json'')]
             (openai_request ''.''),
           Call_submitComment ''t1_c1'' ''Plants turn light into sugar.'',
           Console_log ''Replied to comment t1_c1 with AI response'',
           Call_hIncrBy ''stats'' ''comments_processed'' 1] \<and>
   map_option trace (onPostSubmit example_context (Some example_post) example_world) =
     Some [Call_generateAIResponse [],
           Call_fetch openai_url
             [(''Authorization'', ''Bearer sk-test''), (''Content-Type'', ''application/json'')]
             (openai_request []),
           Call_submitComment ''t3_p1'' ''Plants turn light into sugar.'',
           Console_log ''Replied to post t3_p1 with AI response'',
           Call_hIncrBy ''stats'' ''posts_processed'' 1]"
proof -
  have k: "triggerKeyword dots_keyword_context = ''..''"
    by (simp add: triggerKeyword_def dots_keyword_context_def)
  have b: "body dots_comment = '' ..''" "comment_id dots_comment = ''t1_c1''"
    "author dots_comment = ''alice''"
    by (simp_all add: dots_comment_def example_comment_def)
  have b2: "body dots_twice_comment = ''.. ..''" "comment_id dots_twice_comment = ''t1_c1''"
    "author dots_twice_comment = ''alice''"
    by (simp_all add: dots_twice_comment_def example_comment_def)
  have i: "includes_str (toLowerCase '' ..'') (toLowerCase ''..'')" by code_simp
  have i2: "includes_str (toLowerCase ''.. ..'') (toLowerCase ''..'')" by code_simp
  have s: "trim (strip_keyword ''..'' '' ..'') = []" by code_simp
  have s2: "trim (strip_keyword ''..'' ''.. ..'') = []" by code_simp
  have q: "trim (replace_all [AnyChar, AnyChar] '' ..'') = ''.''" by code_simp
  have q2: "trim (replace_all [AnyChar, AnyChar] ''.. ..'') = ''.''" by code_simp
  note r = dots_keyword_run [OF b(1) i b(3) q]
  note r2 = dots_keyword_run [OF b2(1) i2 b2(3) q2]
  have c: "map_option trace (onCommentCreate dots_keyword_context (Some dots_comment) example_world) =
     Some [Call_generateAIResponse ''.'',
           Call_fetch openai_url
             [(''Authorization'', ''Bearer sk-test''), (''Content-Type'', ''application/json'')]
             (openai_request ''.''),
           Call_submitComment ''t1_c1'' ''Plants turn light into sugar.'',
           Console_log ''Replied to comment t1_c1 with AI response'',
           Call_hIncrBy ''stats'' ''comments_processed'' 1]"
    using r(2) by (simp add: b(2))
  have c2: "map_option trace (onCommentCreate dots_keyword_context (Some dots_twice_comment) example_world) =
     Some [Call_generateAIResponse ''.'',
           Call_fetch openai_url
             [(''Authorization'', ''Bearer sk-test''), (''Content-Type'', ''application/json'')]
             (openai_request ''.''),
           Call_submitComment ''t1_c1'' ''Plants turn light into sugar.'',
           Console_log ''Replied to comment t1_c1 with AI response'',
           Call_hIncrBy ''stats'' ''comments_processed'' 1]"
    using r2(2) by (simp add: b2(2))
  have pq: "trim (replace_all (map atom_of ''!ask'') (postContent example_post)) = []"
    using example_post_question by (simp add: example_post_def postContent_def)
  have pid: "post_id example_post = ''t3_p1''" by (simp add: example_post_def)
  have pok: "submitComment_ok example_context t x" "hIncrBy_ok example_context" for t x
    by (simp_all add: example_context_def)
  have pa: "generateAIResponse example_context
        (trim (replace_all (map atom_of ''!ask'') (postContent example_post))) example_world =
     (Inr ''Plants turn light into sugar.'',
      example_world\<lparr>trace :=
        [Call_generateAIResponse [],
         Call_fetch openai_url
           [(''Authorization'', ''Bearer sk-test''), (''Content-Type'', ''application/json'')]
           (openai_request [])]\<rparr>)"
    unfolding pq by (rule example_generate)
  obtain w' where p: "onPostSubmit example_context (Some example_post) example_world = Some w'"
    "trace w' = trace (example_world\<lparr>trace :=
        [Call_generateAIResponse [],
         Call_fetch openai_url
           [(''Authorization'', ''Bearer sk-test''), (''Content-Type'', ''application/json'')]
           (openai_request [])]\<rparr>) @
      [Call_submitComment (post_id example_post) ''Plants turn light into sugar.'',
       Console_log (''Replied to post '' @ post_id example_post @ '' with AI response''),
       Call_hIncrBy ''stats'' ''posts_processed'' 1]"
    using post_success [of example_context example_post "map atom_of ''!ask''" example_world
        "''Plants turn light into sugar.''", OF example_post_gates _ pa pok]
      example_pattern example_keyword by auto
  have pp: "map_option trace (onPostSubmit example_context (Some example_post) example_world) =
     Some [Call_generateAIResponse [],
           Call_fetch openai_url
             [(''Authorization'', ''Bearer sk-test''), (''Content-Type'', ''application/json'')]
             (openai_request []),
           Call_submitComment ''t3_p1'' ''Plants turn light into sugar.'',
           Console_log ''Replied to post t3_p1 with AI response'',
           Call_hIncrBy ''stats'' ''posts_processed'' 1]"
    using p by (simp add: pid)
  show ?thesis using k b(1) b2(1) r(1) r2(1) s s2 c c2 pp by blast
qed



section \<open>Properties of the conversation store\<close>





end
